theory Spec2Isabelle
  imports
    Complex_Main
    "HOL-Library.Multiset"
    "HOL-Library.Sublist"
begin

section \<open>Antibody virtual screening: data model\<close>

text \<open>
  The development follows \<^verbatim>\<open>antibody_virtual_screening.py\<close>: the dataclass
  \<^verbatim>\<open>AntibodyCandidate\<close> with its derived \<^verbatim>\<open>composite_score\<close>, the loader
  \<^verbatim>\<open>load_antibody_data\<close>, the filter and ranker \<^verbatim>\<open>screen_antibodies\<close> and the
  reporter \<^verbatim>\<open>generate_report\<close>.

  Numbers. Python's \<^verbatim>\<open>float\<close> is modelled by \<^typ>\<open>real\<close>: every score is a finite
  number and arithmetic is exact. Rounding, infinities and NaN are outside the model.
  Python's \<^verbatim>\<open>int\<close> is \<^typ>\<open>int\<close>.

  Exceptions. Every \<^verbatim>\<open>raise\<close> is a value \<open>Inl e\<close> of a sum type; a normal return is
  \<open>Inr v\<close>.
\<close>

datatype py_error =
  ValueError | TypeError | KeyError | OverflowError | ZeroDivisionError | OSError

text \<open>Python's exception hierarchy puts \<^verbatim>\<open>ZeroDivisionError\<close> and
  \<^verbatim>\<open>OverflowError\<close> under \<^verbatim>\<open>ArithmeticError\<close>: they are the faults of the arithmetic
  itself, as opposed to an error that a function raises after testing its input.\<close>

fun is_arithmetic_error :: "py_error \<Rightarrow> bool" where
  "is_arithmetic_error ZeroDivisionError = True"
| "is_arithmetic_error OverflowError = True"
| "is_arithmetic_error _ = False"

text \<open>The dataclass. The field \<^verbatim>\<open>id\<close> is written \<open>id'\<close>, as \<open>id\<close> is the
  identity function of HOL.\<close>

record AntibodyCandidate =
  id' :: string
  sequence :: string
  stability_score :: real
  solubility_score :: real
  immunogenicity_score :: real
  binding_affinity :: real

text \<open>
  \<^verbatim>\<open>
  @property
  def composite_score(self) -> float:
      return (self.stability_score * 0.3 + self.solubility_score * 0.25 +
              (100 - self.immunogenicity_score) * 0.25 +
              min(100, 100 / (self.binding_affinity + 1)) * 0.2)
  \<close>
  The division raises \<^verbatim>\<open>ZeroDivisionError\<close> when its denominator is zero.
\<close>

definition composite_score :: "AntibodyCandidate \<Rightarrow> py_error + real" where
  "composite_score self =
     (if binding_affinity self + 1 = 0 then Inl ZeroDivisionError
      else Inr (stability_score self * 0.3 +
                solubility_score self * 0.25 +
                (100 - immunogenicity_score self) * 0.25 +
                min 100 (100 / (binding_affinity self + 1)) * 0.2))"


section \<open>Python values and library functions\<close>

text \<open>
  A raw record is a \<^verbatim>\<open>dict\<close> from field names to values of any type. The values
  the loader can tell apart are strings, integers, floats and \<^verbatim>\<open>None\<close>.
\<close>

datatype pyval = PyStr string | PyInt int | PyFloat real | PyNone

type_synonym raw_record = "string \<rightharpoonup> pyval"

text \<open>
  The library functions whose results are fixed by Python and not by this program are
  parameters of the model: \<^verbatim>\<open>float(s)\<close> for a string (\<open>None\<close> when \<open>s\<close> is not
  a float literal and Python raises \<^verbatim>\<open>ValueError\<close>), \<^verbatim>\<open>str\<close> of a number, the
  format \<^verbatim>\<open>:.1f\<close> and \<^verbatim>\<open>round(x, 2)\<close>.
\<close>

record builtins =
  float_of_str :: "string \<Rightarrow> real option"
  str_of_int :: "int \<Rightarrow> string"
  str_of_float :: "real \<Rightarrow> string"
  format_1f :: "real \<Rightarrow> string"
  round_2 :: "real \<Rightarrow> real"

text \<open>The clock read by \<^verbatim>\<open>datetime.now().isoformat()\<close> and the destinations that
  \<^verbatim>\<open>open(path, 'w')\<close> can open.\<close>

record env =
  now :: string
  writable :: "string \<Rightarrow> bool"

text \<open>Sequencing of computations that may raise: the first exception ends the computation.\<close>

fun and_then :: "'e + 'a \<Rightarrow> ('a \<Rightarrow> 'e + 'b) \<Rightarrow> 'e + 'b" where
  "and_then (Inl e) f = Inl e"
| "and_then (Inr v) f = f v"

text \<open>\<^verbatim>\<open>record[key]\<close> raises \<^verbatim>\<open>KeyError\<close> for a missing key.\<close>

definition getitem :: "raw_record \<Rightarrow> string \<Rightarrow> py_error + pyval" where
  "getitem record key = (case record key of None \<Rightarrow> Inl KeyError | Some v \<Rightarrow> Inr v)"

text \<open>\<^verbatim>\<open>str(v)\<close>: a string is returned as it is.\<close>

definition py_str :: "builtins \<Rightarrow> pyval \<Rightarrow> string" where
  "py_str B v =
     (case v of
        PyStr s \<Rightarrow> s
      | PyInt n \<Rightarrow> str_of_int B n
      | PyFloat x \<Rightarrow> str_of_float B x
      | PyNone \<Rightarrow> ''None'')"

text \<open>
  \<^verbatim>\<open>float(v)\<close>: a float is returned as it is; an integer is converted (to the same
  number, in this model of floats), and Python raises
  \<^verbatim>\<open>OverflowError\<close> (int too large to convert to float) when it rounds to a magnitude
  beyond the largest double, that is from \<open>2^1024 - 2^970\<close> on; a string is parsed or
  raises \<^verbatim>\<open>ValueError\<close>; \<^verbatim>\<open>None\<close> raises \<^verbatim>\<open>TypeError\<close>.
\<close>

definition float_int_limit :: int where
  "float_int_limit = 2 ^ 1024 - 2 ^ 970"

definition py_float :: "builtins \<Rightarrow> pyval \<Rightarrow> py_error + real" where
  "py_float B v =
     (case v of
        PyFloat x \<Rightarrow> Inr x
      | PyInt n \<Rightarrow> if float_int_limit \<le> \<bar>n\<bar> then Inl OverflowError else Inr (of_int n)
      | PyStr s \<Rightarrow> (case float_of_str B s of None \<Rightarrow> Inl ValueError | Some x \<Rightarrow> Inr x)
      | PyNone \<Rightarrow> Inl TypeError)"

text \<open>\<^verbatim>\<open>str.upper()\<close> on ASCII text: the letters \<open>a\<close> to \<open>z\<close> (codes 97 to 122) move
  to \<open>A\<close> to \<open>Z\<close>, every other character stays.\<close>

definition upper_char :: "char \<Rightarrow> char" where
  "upper_char c =
     (if (97::nat) \<le> of_char c \<and> of_char c \<le> (122::nat)
      then char_of (of_char c - (32::nat)) else c)"

definition upper :: "string \<Rightarrow> string" where
  "upper s = map upper_char s"

section \<open>Module 1: loading and cleaning\<close>

definition required_fields :: "string list" where
  "required_fields = [''id'', ''sequence'', ''stability_score'',
                      ''solubility_score'', ''immunogenicity_score'', ''binding_affinity'']"

text \<open>
  \<^verbatim>\<open>
  for idx, record in enumerate(raw_data):
      try:
          if not all(field in record for field in required_fields):
              continue
          candidate = AntibodyCandidate(
              id=str(record['id']),
              sequence=str(record['sequence']).upper(),
              stability_score=float(record['stability_score']),
              solubility_score=float(record['solubility_score']),
              immunogenicity_score=float(record['immunogenicity_score']),
              binding_affinity=float(record['binding_affinity']))
          if len(candidate.sequence) < 50:
              continue
          candidates.append(candidate)
      except (ValueError, TypeError) as e:
          continue
  return candidates
  \<close>
  The log lines are left out. The constructor call: its six arguments are evaluated from
  left to right, and the first conversion that raises ends the call.
\<close>

definition make_candidate :: "builtins \<Rightarrow> raw_record \<Rightarrow> py_error + AntibodyCandidate" where
  "make_candidate B record =
     and_then (getitem record ''id'') (\<lambda>v_id.
     and_then (getitem record ''sequence'') (\<lambda>v_seq.
     and_then (getitem record ''stability_score'') (\<lambda>v_stab.
     and_then (py_float B v_stab) (\<lambda>stab.
     and_then (getitem record ''solubility_score'') (\<lambda>v_sol.
     and_then (py_float B v_sol) (\<lambda>sol.
     and_then (getitem record ''immunogenicity_score'') (\<lambda>v_imm.
     and_then (py_float B v_imm) (\<lambda>imm.
     and_then (getitem record ''binding_affinity'') (\<lambda>v_aff.
     and_then (py_float B v_aff) (\<lambda>aff.
       Inr \<lparr>id' = py_str B v_id, sequence = upper (py_str B v_seq),
            stability_score = stab, solubility_score = sol,
            immunogenicity_score = imm, binding_affinity = aff\<rparr>))))))))))"

text \<open>The body of the \<^verbatim>\<open>try\<close>: \<open>Inr None\<close> is \<^verbatim>\<open>continue\<close>, \<open>Inr (Some c)\<close> is the
  candidate that is appended.\<close>

definition try_body :: "builtins \<Rightarrow> raw_record \<Rightarrow> py_error + AntibodyCandidate option" where
  "try_body B record =
     (if \<not> list_all (\<lambda>field. field \<in> dom record) required_fields then Inr None
      else and_then (make_candidate B record) (\<lambda>candidate.
             if length (sequence candidate) < 50 then Inr None else Inr (Some candidate)))"

text \<open>\<^verbatim>\<open>except (ValueError, TypeError)\<close>: these two are caught and the record is
  skipped; any other exception leaves the loop and the function.\<close>

definition process_record :: "builtins \<Rightarrow> raw_record \<Rightarrow> py_error + AntibodyCandidate option" where
  "process_record B record =
     (case try_body B record of
        Inl ValueError \<Rightarrow> Inr None
      | Inl TypeError \<Rightarrow> Inr None
      | Inl e \<Rightarrow> Inl e
      | Inr r \<Rightarrow> Inr r)"

fun load_loop ::
  "builtins \<Rightarrow> raw_record list \<Rightarrow> AntibodyCandidate list \<Rightarrow> py_error + AntibodyCandidate list"
where
  "load_loop B [] candidates = Inr candidates"
| "load_loop B (record # rest) candidates =
     (case process_record B record of
        Inl e \<Rightarrow> Inl e
      | Inr None \<Rightarrow> load_loop B rest candidates
      | Inr (Some candidate) \<Rightarrow> load_loop B rest (candidates @ [candidate]))"

definition load_antibody_data ::
  "builtins \<Rightarrow> raw_record list \<Rightarrow> py_error + AntibodyCandidate list" where
  "load_antibody_data B raw_data = load_loop B raw_data []"

text \<open>
  The three checks of the loader in the words of the specification: all six required
  fields are present, every coercion succeeds, and the normalised sequence has at least 50
  characters.
\<close>

definition fields_present :: "raw_record \<Rightarrow> bool" where
  "fields_present record \<longleftrightarrow> set required_fields \<subseteq> dom record"

definition coercions_succeed :: "builtins \<Rightarrow> raw_record \<Rightarrow> bool" where
  "coercions_succeed B record \<longleftrightarrow>
     (\<forall>field \<in> {''stability_score'', ''solubility_score'',
                 ''immunogenicity_score'', ''binding_affinity''}.
        \<forall>v. record field = Some v \<longrightarrow> (\<exists>x. py_float B v = Inr x))"

definition sequence_long_enough :: "builtins \<Rightarrow> raw_record \<Rightarrow> bool" where
  "sequence_long_enough B record \<longleftrightarrow>
     (\<forall>v. record ''sequence'' = Some v \<longrightarrow> 50 \<le> length (upper (py_str B v)))"

definition passes_checks :: "builtins \<Rightarrow> raw_record \<Rightarrow> bool" where
  "passes_checks B record \<longleftrightarrow>
     fields_present record \<and> coercions_succeed B record \<and> sequence_long_enough B record"

section \<open>Sorting and slicing as Python does them\<close>

text \<open>
  \<^verbatim>\<open>sorted(xs, key=f, reverse=True)\<close> first evaluates the key of every element, in
  order, so an exception of the key function leaves \<^verbatim>\<open>sorted\<close> before anything is
  ordered. It then returns a new list in descending key order, and the sort is
  stable: elements with equal keys keep the order they had in \<open>xs\<close>. The model is an
  insertion sort on the pairs of key and element: an element coming earlier in \<open>xs\<close> is
  put in front of the elements whose key is not larger.
\<close>

fun eval_keys :: "('a \<Rightarrow> py_error + real) \<Rightarrow> 'a list \<Rightarrow> py_error + (real \<times> 'a) list" where
  "eval_keys key [] = Inr []"
| "eval_keys key (x # xs) =
     and_then (key x) (\<lambda>k. and_then (eval_keys key xs) (\<lambda>ps. Inr ((k, x) # ps)))"

fun insort_desc :: "real \<times> 'a \<Rightarrow> (real \<times> 'a) list \<Rightarrow> (real \<times> 'a) list" where
  "insort_desc p [] = [p]"
| "insort_desc p (q # qs) = (if fst q \<le> fst p then p # q # qs else q # insort_desc p qs)"

fun sort_desc :: "(real \<times> 'a) list \<Rightarrow> (real \<times> 'a) list" where
  "sort_desc [] = []"
| "sort_desc (p # ps) = insort_desc p (sort_desc ps)"

definition sorted_reverse :: "('a \<Rightarrow> py_error + real) \<Rightarrow> 'a list \<Rightarrow> py_error + 'a list" where
  "sorted_reverse key xs = and_then (eval_keys key xs) (\<lambda>ps. Inr (map snd (sort_desc ps)))"

text \<open>The slice \<^verbatim>\<open>xs[:k]\<close>: the first \<open>k\<close> elements, and for a negative \<open>k\<close> all but
  the last \<open>-k\<close>.\<close>

definition slice_to :: "'a list \<Rightarrow> int \<Rightarrow> 'a list" where
  "slice_to xs k = (if 0 \<le> k then take (nat k) xs else take (length xs - nat (- k)) xs)"

section \<open>Module 2: screening\<close>

record config =
  stability_threshold :: real
  solubility_threshold :: real
  immunogenicity_threshold :: real
  top_k :: int
  batch_size :: int

definition CONFIG :: config where
  "CONFIG = \<lparr>stability_threshold = 75, solubility_threshold = 60,
             immunogenicity_threshold = 30, top_k = 5, batch_size = 100\<rparr>"

text \<open>
  \<^verbatim>\<open>
  filtered = []
  for antibody in candidates:
      if antibody.stability_score < config['stability_threshold']:
          continue
      if antibody.solubility_score < config['solubility_threshold']:
          continue
      if antibody.immunogenicity_score > config['immunogenicity_threshold']:
          continue
      filtered.append(antibody)
  ranked = sorted(filtered, key=lambda x: x.composite_score, reverse=True)
  logging.info(f"... {len(filtered)/len(candidates)*100:.1f}%")
  return ranked[:config['top_k']]
  \<close>
  The filtering loop, with the three \<^verbatim>\<open>continue\<close> tests in the order of the source.
\<close>

fun filter_loop :: "config \<Rightarrow> AntibodyCandidate list \<Rightarrow> AntibodyCandidate list \<Rightarrow> AntibodyCandidate list"
where
  "filter_loop cfg [] filtered = filtered"
| "filter_loop cfg (antibody # rest) filtered =
     (if stability_score antibody < stability_threshold cfg then filter_loop cfg rest filtered
      else if solubility_score antibody < solubility_threshold cfg then filter_loop cfg rest filtered
      else if immunogenicity_score antibody > immunogenicity_threshold cfg
        then filter_loop cfg rest filtered
      else filter_loop cfg rest (filtered @ [antibody]))"

text \<open>
  The log line after the sort formats \<^verbatim>\<open>len(filtered)/len(candidates)*100\<close>; the
  f-string is evaluated before \<^verbatim>\<open>logging.info\<close> is called, so the division by
  \<^verbatim>\<open>len(candidates)\<close> raises \<^verbatim>\<open>ZeroDivisionError\<close> for an empty input. The
  text of the log is not part of the result.
\<close>

definition screen_antibodies ::
  "AntibodyCandidate list \<Rightarrow> config \<Rightarrow> py_error + AntibodyCandidate list" where
  "screen_antibodies candidates cfg =
     (let filtered = filter_loop cfg candidates [] in
      and_then (sorted_reverse composite_score filtered) (\<lambda>ranked.
        if length candidates = 0 then Inl ZeroDivisionError
        else Inr (slice_to ranked (top_k cfg))))"



section \<open>Module 3: the report\<close>

text \<open>
  The report is the dictionary that \<^verbatim>\<open>generate_report\<close> returns. An entry of
  \<^verbatim>\<open>top_candidates\<close> holds the rank, the fields of the candidate (\<^verbatim>\<open>asdict(ab)\<close>)
  and the composite score rounded to two places. A recommendation is a fixed text around
  the identifier of the candidate and its score in the format \<^verbatim>\<open>:.1f\<close>; it is kept as
  this pair. The console output is not part of the returned value and is left out; of the
  optional file output, the model keeps that opening the destination can fail.
\<close>

record report_summary =
  total_input :: int
  passed_count :: nat
  pass_rate :: string

record report_entry =
  rank :: nat
  candidate :: AntibodyCandidate
  composite_score_rounded :: real

record report =
  timestamp :: string
  summary :: report_summary
  top_candidates :: "report_entry list"
  recommendations :: "(string \<times> string) list"

text \<open>The comprehension over \<^verbatim>\<open>enumerate(top_antibodies)\<close>, from index \<open>idx\<close> on.\<close>

fun entries_from :: "builtins \<Rightarrow> nat \<Rightarrow> AntibodyCandidate list \<Rightarrow> py_error + report_entry list"
where
  "entries_from B idx [] = Inr []"
| "entries_from B idx (ab # rest) =
     and_then (composite_score ab) (\<lambda>score.
     and_then (entries_from B (idx + 1) rest) (\<lambda>es.
       Inr (\<lparr>rank = idx + 1, candidate = ab, composite_score_rounded = round_2 B score\<rparr> # es)))"

fun recommendations_of :: "builtins \<Rightarrow> AntibodyCandidate list \<Rightarrow> py_error + (string \<times> string) list"
where
  "recommendations_of B [] = Inr []"
| "recommendations_of B (ab # rest) =
     and_then (composite_score ab) (\<lambda>score.
     and_then (recommendations_of B rest) (\<lambda>rs. Inr ((id' ab, format_1f B score) # rs)))"

text \<open>The function from the construction of the dictionary on, for the list that the
  local variable \<^verbatim>\<open>top_antibodies\<close> refers to at that point.\<close>

definition build_report ::
  "builtins \<Rightarrow> env \<Rightarrow> AntibodyCandidate list \<Rightarrow> int \<Rightarrow> string option \<Rightarrow> py_error + report" where
  "build_report B E top_antibodies n_input output_path =
     and_then (if n_input = 0 then Inl ZeroDivisionError
               else Inr (format_1f B (real (length top_antibodies) / real_of_int n_input * 100)))
       (\<lambda>rate.
     and_then (entries_from B 0 top_antibodies) (\<lambda>entries.
     and_then (recommendations_of B (take 3 top_antibodies)) (\<lambda>recs.
       let rep = \<lparr>timestamp = now E,
                  summary = \<lparr>total_input = n_input,
                             passed_count = length top_antibodies,
                             pass_rate = rate\<rparr>,
                  top_candidates = entries,
                  recommendations = recs\<rparr>
       in (case output_path of
             None \<Rightarrow> Inr rep
           | Some path \<Rightarrow>
               if path \<noteq> [] \<and> \<not> writable E path then Inl OSError else Inr rep))))"

text \<open>
  \<^verbatim>\<open>
  if top_antibodies:
      top_antibodies = sorted(top_antibodies, key=lambda ab: ab.composite_score, reverse=True)
  \<close>
  On values: the sorted list replaces the argument for the rest of the function.
\<close>

definition generate_report ::
  "builtins \<Rightarrow> env \<Rightarrow> AntibodyCandidate list \<Rightarrow> int \<Rightarrow> string option \<Rightarrow> py_error + report" where
  "generate_report B E top_antibodies n_input output_path =
     and_then (if top_antibodies \<noteq> [] then sorted_reverse composite_score top_antibodies
               else Inr top_antibodies)
       (\<lambda>ranked. build_report B E ranked n_input output_path)"

text \<open>
  On objects: a Python list is an object that caller and callee share. The store holds
  the list objects by address; addresses below \<open>next_free\<close> are in use. \<^verbatim>\<open>sorted\<close>
  allocates a new list object and leaves its argument alone, and the assignment makes the
  local variable refer to the new object.
\<close>

record store =
  cells :: "nat \<Rightarrow> AntibodyCandidate list"
  next_free :: nat

definition alloc :: "store \<Rightarrow> AntibodyCandidate list \<Rightarrow> nat \<times> store" where
  "alloc s xs = (next_free s, s\<lparr>cells := (cells s)(next_free s := xs), next_free := next_free s + 1\<rparr>)"

definition sorted_reverse_st ::
  "store \<Rightarrow> nat \<Rightarrow> (py_error + nat) \<times> store" where
  "sorted_reverse_st s a =
     (case sorted_reverse composite_score (cells s a) of
        Inl e \<Rightarrow> (Inl e, s)
      | Inr ys \<Rightarrow> (let (a', s') = alloc s ys in (Inr a', s')))"

definition generate_report_st ::
  "builtins \<Rightarrow> env \<Rightarrow> store \<Rightarrow> nat \<Rightarrow> int \<Rightarrow> string option \<Rightarrow> (py_error + report) \<times> store" where
  "generate_report_st B E s top_antibodies n_input output_path =
     (if cells s top_antibodies \<noteq> [] then
        (case sorted_reverse_st s top_antibodies of
           (Inl e, s') \<Rightarrow> (Inl e, s')
         | (Inr top_antibodies', s') \<Rightarrow>
             (build_report B E (cells s' top_antibodies') n_input output_path, s'))
      else (build_report B E (cells s top_antibodies) n_input output_path, s))"

section \<open>Example data\<close>

text \<open>The candidates built by \<^verbatim>\<open>create_mock_candidate\<close> in the test files: a fixed
  sequence of 98 residues and the identifier \<^verbatim>\<open>AB_<suffix>\<close>.\<close>

definition mock_sequence :: string where
  "mock_sequence =
     ''EVQLVESGGGLVQPGGSLRLSCAASGFTFDDYAMHWVRQAPGKGLEWVSAITWNSGHIDYADSVEGRFTISRDNAKNSLYLQMNSLRAEDTALYYCAK''"

definition mock_candidate :: "string \<Rightarrow> real \<Rightarrow> real \<Rightarrow> real \<Rightarrow> real \<Rightarrow> AntibodyCandidate" where
  "mock_candidate id_suffix stability solubility immunogenicity affinity =
     \<lparr>id' = ''AB_'' @ id_suffix, sequence = mock_sequence,
      stability_score = stability, solubility_score = solubility,
      immunogenicity_score = immunogenicity, binding_affinity = affinity\<rparr>"



text \<open>The three candidates of \<^verbatim>\<open>test_generate_report_ranking\<close>, not in ranking order.\<close>

definition report_candidates :: "AntibodyCandidate list" where
  "report_candidates =
     [mock_candidate ''0001'' 80 70 25 (1/2), mock_candidate ''0002'' 90 70 25 (1/2),
      mock_candidate ''0003'' 85 70 25 (1/2)]"

text \<open>
  The theorems below hold for every choice of the library functions and of the
  environment. To run the examples, one choice is fixed: placeholders for the texts, the
  identity for the rounding, no float literal among the strings, a fixed clock and no
  writable destination. None of the examples depends on it.
\<close>

definition example_builtins :: builtins where
  "example_builtins =
     \<lparr>float_of_str = (\<lambda>s. None), str_of_int = (\<lambda>n. ''<int>''),
      str_of_float = (\<lambda>x. ''<float>''), format_1f = (\<lambda>x. ''<.1f>''),
      round_2 = (\<lambda>x. x)\<rparr>"

definition example_env :: env where
  "example_env = \<lparr>now = ''2024-01-01T00:00:00'', writable = (\<lambda>path. False)\<rparr>"

text \<open>A store with one list object, at address 0.\<close>

definition example_store :: store where
  "example_store = \<lparr>cells = (\<lambda>a. [])(0 := report_candidates), next_free = 1\<rparr>"

text \<open>The dictionary literal of the loader tests, with its six keys.\<close>

definition raw_record_of ::
  "pyval \<Rightarrow> pyval \<Rightarrow> pyval \<Rightarrow> pyval \<Rightarrow> pyval \<Rightarrow> pyval \<Rightarrow> raw_record" where
  "raw_record_of v_id v_seq v_stab v_sol v_imm v_aff =
     [''id'' \<mapsto> v_id, ''sequence'' \<mapsto> v_seq, ''stability_score'' \<mapsto> v_stab,
      ''solubility_score'' \<mapsto> v_sol, ''immunogenicity_score'' \<mapsto> v_imm,
      ''binding_affinity'' \<mapsto> v_aff]"

text \<open>A sequence of 100 residues in lower case.\<close>

definition lower_sequence :: string where
  "lower_sequence =
     ''evqlvesggglvqpggslrlscaasgftfddyamhwvrqapgkglewvsaitwnsghidyadsvegrftisrdnaknslylqmnslraedtalyycakgs''"


section \<open>Properties\<close>

subsection \<open>The composite score\<close>

lemma composite_score_raises_iff:
  "composite_score c = Inl e \<longleftrightarrow> e = ZeroDivisionError \<and> binding_affinity c = -1"
  by (auto simp: composite_score_def)


text \<open>
  Claim C1. For a record whose \<open>binding_affinity\<close> is not \<open>-1\<close> the composite score
  is \<open>stability * 0.30 + solubility * 0.25 + (100 - immunogenicity) * 0.25 +
  min(100, 100 / (affinity + 1)) * 0.20\<close>; and the outcome of the computation depends on
  the four numeric fields only: two records that agree on them (whatever their \<open>id\<close> and
  \<open>sequence\<close>) have the same outcome.
\<close>

theorem composite_score_formula:
  "(binding_affinity r \<noteq> -1 \<longrightarrow>
      composite_score r =
        Inr (stability_score r * 0.30 + solubility_score r * 0.25 +
             (100 - immunogenicity_score r) * 0.25 +
             min 100 (100 / (binding_affinity r + 1)) * 0.20)) \<and>
   (stability_score r = stability_score r' \<and>
    solubility_score r = solubility_score r' \<and>
    immunogenicity_score r = immunogenicity_score r' \<and>
    binding_affinity r = binding_affinity r' \<longrightarrow>
      composite_score r = composite_score r')"
  by (auto simp: composite_score_def)

theorem composite_score_formula_witness:
  "binding_affinity (mock_candidate ''0001'' 85 70 25 (1/2)) \<noteq> -1 \<and>
   composite_score (mock_candidate ''0001'' 85 70 25 (1/2)) = Inr (901 / 12) \<and>
   composite_score (mock_candidate ''0001'' 85 70 25 (1/2)) =
     composite_score ((mock_candidate ''0002'' 85 70 25 (1/2))\<lparr>sequence := ''QVQLQ''\<rparr>)"
proof -
  let ?r = "mock_candidate ''0001'' 85 70 25 (1/2)"
  let ?r' = "(mock_candidate ''0002'' 85 70 25 (1/2))\<lparr>sequence := ''QVQLQ''\<rparr>"
  note formula = composite_score_formula [of ?r ?r']
  have a: "binding_affinity ?r \<noteq> -1"
    by (simp add: mock_candidate_def)
  have b: "stability_score ?r = stability_score ?r' \<and>
           solubility_score ?r = solubility_score ?r' \<and>
           immunogenicity_score ?r = immunogenicity_score ?r' \<and>
           binding_affinity ?r = binding_affinity ?r'"
    by (simp add: mock_candidate_def)
  from formula a have "composite_score ?r = Inr (901 / 12)"
    by (simp add: mock_candidate_def)
  moreover from formula b have "composite_score ?r = composite_score ?r'"
    by blast
  ultimately show ?thesis using a by blast
qed

subsection \<open>Sequencing, sorting and slicing\<close>

lemma and_then_Inr_iff: "and_then m f = Inr y \<longleftrightarrow> (\<exists>v. m = Inr v \<and> f v = Inr y)"
  by (cases m) auto

lemma and_then_Inl_iff: "and_then m f = Inl e \<longleftrightarrow> m = Inl e \<or> (\<exists>v. m = Inr v \<and> f v = Inl e)"
  by (cases m) auto




lemma eval_keys_Inl: "eval_keys key xs = Inl e \<Longrightarrow> \<exists>x \<in> set xs. key x = Inl e"
  by (induction xs) (auto simp: and_then_Inl_iff)




lemma sorted_reverse_Inl: "sorted_reverse key xs = Inl e \<Longrightarrow> \<exists>x \<in> set xs. key x = Inl e"
  by (auto simp: sorted_reverse_def and_then_Inl_iff dest: eval_keys_Inl)


subsection \<open>Screening\<close>










text \<open>
  Claim C3. For the empty candidate list the claim asks for a special case that keeps the
  pass rate from dividing by zero. The code has none: the log line divides by
  \<open>len(candidates)\<close> and the call ends in \<^verbatim>\<open>ZeroDivisionError\<close>, for every
  configuration.
\<close>

theorem screen_antibodies_empty: "screen_antibodies [] cfg = Inl ZeroDivisionError"
  by (simp add: screen_antibodies_def sorted_reverse_def)

theorem screen_antibodies_empty_witness:
  "screen_antibodies [] CONFIG = Inl ZeroDivisionError"
  by (rule screen_antibodies_empty)



subsection \<open>The report\<close>




lemma build_report_zero: "build_report B E xs 0 p = Inl ZeroDivisionError"
  by (simp add: build_report_def)




lemma sort_step_Inl:
  "(if xs \<noteq> [] then sorted_reverse composite_score xs else Inr xs) = Inl e \<Longrightarrow>
     e = ZeroDivisionError"
  by (auto split: if_splits dest!: sorted_reverse_Inl simp: composite_score_raises_iff)


lemma generate_report_zero: "generate_report B E xs 0 p = Inl ZeroDivisionError"
proof (cases "if xs \<noteq> [] then sorted_reverse composite_score xs else Inr xs")
  case (Inl e)
  then have "e = ZeroDivisionError" by (rule sort_step_Inl)
  with Inl show ?thesis by (simp add: generate_report_def)
next
  case (Inr ys)
  then show ?thesis by (simp add: generate_report_def build_report_zero)
qed




text \<open>
  Claim C4, as the code has it. For every candidate list, \<open>generate_report\<close> called with
  \<open>total_input = 0\<close> raises \<^verbatim>\<open>ZeroDivisionError\<close>: no report is returned and no
  NaN is produced. The error is the one of the unguarded division (or of the sort key),
  passed on to the caller.
\<close>

theorem generate_report_zero_input:
  "generate_report B E top_antibodies 0 output_path = Inl ZeroDivisionError"
  by (rule generate_report_zero)

theorem generate_report_zero_input_witness:
  "generate_report example_builtins example_env report_candidates 0 (Some ''report.json'') =
     Inl ZeroDivisionError"
  by (rule generate_report_zero_input)

text \<open>
  Where the claim as it is written fails: it asks for a domain error in place of the
  arithmetic fault. With \<open>total_input = 0\<close> the outcome is the arithmetic fault itself.
\<close>

theorem generate_report_zero_input_counterexample:
  "generate_report example_builtins example_env report_candidates 0 None = Inl ZeroDivisionError \<and>
   is_arithmetic_error ZeroDivisionError"
  by (simp add: generate_report_zero)



text \<open>
  Claim C10. \<open>generate_report\<close> does not change the list of its caller. On the store of
  list objects, every object that exists before the call, the argument among them, holds
  the same records in the same order after it: the sorted list is a new object. The value
  returned is the one computed on the contents of the argument.
\<close>

theorem generate_report_st_frame:
  "(\<forall>b < next_free s.
      cells (snd (generate_report_st B E s top_antibodies n p)) b = cells s b) \<and>
   fst (generate_report_st B E s top_antibodies n p) =
     generate_report B E (cells s top_antibodies) n p"
proof (cases "sorted_reverse composite_score (cells s top_antibodies)")
  case (Inl e)
  then show ?thesis
    by (simp add: generate_report_st_def sorted_reverse_st_def generate_report_def)
next
  case (Inr ys)
  then show ?thesis
    by (simp add: generate_report_st_def sorted_reverse_st_def generate_report_def alloc_def)
qed

theorem generate_report_st_frame_witness:
  "cells (snd (generate_report_st example_builtins example_env example_store 0 100 None)) 0 =
     report_candidates \<and>
   cells (snd (generate_report_st example_builtins example_env example_store 0 100 None)) 1 =
     [mock_candidate ''0002'' 90 70 25 (1/2), mock_candidate ''0003'' 85 70 25 (1/2),
      mock_candidate ''0001'' 80 70 25 (1/2)]"
proof -
  have "(0::nat) < next_free example_store"
    by (simp add: example_store_def)
  with generate_report_st_frame [of example_store example_builtins example_env 0 100 None]
  have "cells (snd (generate_report_st example_builtins example_env example_store 0 100 None)) 0 =
     cells example_store 0"
    by blast
  moreover have "cells example_store 0 = report_candidates"
    by (simp add: example_store_def)
  moreover have
    "cells (snd (generate_report_st example_builtins example_env example_store 0 100 None)) 1 =
     [mock_candidate ''0002'' 90 70 25 (1/2), mock_candidate ''0003'' 85 70 25 (1/2),
      mock_candidate ''0001'' 80 70 25 (1/2)]"
    by (simp add: generate_report_st_def sorted_reverse_st_def alloc_def example_store_def
        report_candidates_def mock_candidate_def sorted_reverse_def composite_score_def)
  ultimately show ?thesis by simp
qed

subsection \<open>The loader\<close>

lemma upper_length [simp]: "length (upper s) = length s"
  by (simp add: upper_def)

lemma getitem_raw_record_of:
  "getitem (raw_record_of v_id v_seq v_stab v_sol v_imm v_aff) ''id'' = Inr v_id"
  "getitem (raw_record_of v_id v_seq v_stab v_sol v_imm v_aff) ''sequence'' = Inr v_seq"
  "getitem (raw_record_of v_id v_seq v_stab v_sol v_imm v_aff) ''stability_score'' = Inr v_stab"
  "getitem (raw_record_of v_id v_seq v_stab v_sol v_imm v_aff) ''solubility_score'' = Inr v_sol"
  "getitem (raw_record_of v_id v_seq v_stab v_sol v_imm v_aff) ''immunogenicity_score'' = Inr v_imm"
  "getitem (raw_record_of v_id v_seq v_stab v_sol v_imm v_aff) ''binding_affinity'' = Inr v_aff"
  by (simp_all add: getitem_def raw_record_of_def)

lemma raw_record_of_complete:
  "list_all (\<lambda>field. field \<in> dom (raw_record_of v_id v_seq v_stab v_sol v_imm v_aff))
     required_fields"
  by (simp add: raw_record_of_def required_fields_def)

lemma process_record_floats:
  "process_record B (raw_record_of (PyStr i) (PyStr sq) (PyFloat stab) (PyFloat sol)
       (PyFloat imm) (PyFloat aff)) =
     (if length sq < 50 then Inr None
      else Inr (Some \<lparr>id' = i, sequence = upper sq, stability_score = stab,
                      solubility_score = sol, immunogenicity_score = imm,
                      binding_affinity = aff\<rparr>))"
  by (simp add: process_record_def try_body_def raw_record_of_complete make_candidate_def
      getitem_raw_record_of py_float_def py_str_def)

lemma upper_mock_sequence: "upper mock_sequence = mock_sequence"
  by code_simp

lemma upper_lower_sequence: "upper lower_sequence = mock_sequence @ ''GS''"
  by code_simp

lemma fields_present_iff:
  "list_all (\<lambda>field. field \<in> dom r) required_fields \<longleftrightarrow> fields_present r"
  by (auto simp: fields_present_def list_all_iff)

lemma fields_presentE:
  assumes "fields_present r"
  obtains v_id v_seq v_stab v_sol v_imm v_aff where
    "r ''id'' = Some v_id" "r ''sequence'' = Some v_seq"
    "r ''stability_score'' = Some v_stab" "r ''solubility_score'' = Some v_sol"
    "r ''immunogenicity_score'' = Some v_imm" "r ''binding_affinity'' = Some v_aff"
proof -
  from assms have "''id'' \<in> dom r" "''sequence'' \<in> dom r" "''stability_score'' \<in> dom r"
    "''solubility_score'' \<in> dom r" "''immunogenicity_score'' \<in> dom r"
    "''binding_affinity'' \<in> dom r"
    by (auto simp: fields_present_def required_fields_def)
  with that show ?thesis by (auto simp: dom_def)
qed

lemma make_candidate_present:
  assumes "r ''id'' = Some v_id" "r ''sequence'' = Some v_seq"
    "r ''stability_score'' = Some v_stab" "r ''solubility_score'' = Some v_sol"
    "r ''immunogenicity_score'' = Some v_imm" "r ''binding_affinity'' = Some v_aff"
  shows "make_candidate B r =
     and_then (py_float B v_stab) (\<lambda>stab.
     and_then (py_float B v_sol) (\<lambda>sol.
     and_then (py_float B v_imm) (\<lambda>imm.
     and_then (py_float B v_aff) (\<lambda>aff.
       Inr \<lparr>id' = py_str B v_id, sequence = upper (py_str B v_seq),
            stability_score = stab, solubility_score = sol,
            immunogenicity_score = imm, binding_affinity = aff\<rparr>))))"
  by (simp add: make_candidate_def getitem_def assms)

lemma py_float_Inl: "py_float B v = Inl e \<Longrightarrow> e \<in> {ValueError, TypeError, OverflowError}"
  by (auto simp: py_float_def split: pyval.splits if_splits option.splits)

lemma make_candidate_Inl:
  assumes "fields_present r" and "make_candidate B r = Inl e"
  shows "e \<in> {ValueError, TypeError, OverflowError}"
proof -
  from assms(1) obtain v_id v_seq v_stab v_sol v_imm v_aff where present:
    "r ''id'' = Some v_id" "r ''sequence'' = Some v_seq"
    "r ''stability_score'' = Some v_stab" "r ''solubility_score'' = Some v_sol"
    "r ''immunogenicity_score'' = Some v_imm" "r ''binding_affinity'' = Some v_aff"
    by (rule fields_presentE)
  from assms(2) have "py_float B v_stab = Inl e \<or> py_float B v_sol = Inl e \<or>
      py_float B v_imm = Inl e \<or> py_float B v_aff = Inl e"
    unfolding make_candidate_present [OF present] by (auto simp: and_then_Inl_iff)
  then show ?thesis using py_float_Inl by blast
qed

lemma make_candidate_Inr_iff:
  assumes "r ''id'' = Some v_id" "r ''sequence'' = Some v_seq"
    "r ''stability_score'' = Some v_stab" "r ''solubility_score'' = Some v_sol"
    "r ''immunogenicity_score'' = Some v_imm" "r ''binding_affinity'' = Some v_aff"
  shows "make_candidate B r = Inr c \<longleftrightarrow>
     (\<exists>stab sol imm aff.
        py_float B v_stab = Inr stab \<and> py_float B v_sol = Inr sol \<and>
        py_float B v_imm = Inr imm \<and> py_float B v_aff = Inr aff \<and>
        c = \<lparr>id' = py_str B v_id, sequence = upper (py_str B v_seq),
             stability_score = stab, solubility_score = sol,
             immunogenicity_score = imm, binding_affinity = aff\<rparr>)"
  unfolding make_candidate_present [OF assms] by (auto simp: and_then_Inr_iff)

text \<open>Of the exceptions of a record's processing, \<^verbatim>\<open>OverflowError\<close> alone reaches the
  caller.\<close>

lemma process_record_Inl: "process_record B r = Inl e \<Longrightarrow> e = OverflowError"
proof -
  assume a: "process_record B r = Inl e"
  then obtain e' where body: "try_body B r = Inl e'"
    by (cases "try_body B r") (auto simp: process_record_def)
  then have present: "fields_present r" and "make_candidate B r = Inl e'"
    by (auto simp: try_body_def fields_present_iff and_then_Inl_iff split: if_splits)
  then have "e' \<in> {ValueError, TypeError, OverflowError}"
    by (rule make_candidate_Inl)
  with a body show ?thesis
    by (auto simp: process_record_def)
qed

text \<open>A record is accepted exactly when it passes the three checks.\<close>

lemma process_record_Some_iff:
  "(\<exists>c. process_record B r = Inr (Some c)) \<longleftrightarrow> passes_checks B r"
proof (cases "fields_present r")
  case False
  then show ?thesis
    by (simp add: process_record_def try_body_def fields_present_iff passes_checks_def)
next
  case True
  then obtain v_id v_seq v_stab v_sol v_imm v_aff where present:
    "r ''id'' = Some v_id" "r ''sequence'' = Some v_seq"
    "r ''stability_score'' = Some v_stab" "r ''solubility_score'' = Some v_sol"
    "r ''immunogenicity_score'' = Some v_imm" "r ''binding_affinity'' = Some v_aff"
    by (rule fields_presentE)
  have accepted: "(\<exists>c. process_record B r = Inr (Some c)) \<longleftrightarrow>
      (\<exists>c. make_candidate B r = Inr c \<and> 50 \<le> length (sequence c))"
    using True
    by (cases "make_candidate B r")
      (auto simp: process_record_def try_body_def fields_present_iff split: py_error.splits)
  have coercions: "coercions_succeed B r \<longleftrightarrow>
      (\<exists>stab sol imm aff. py_float B v_stab = Inr stab \<and> py_float B v_sol = Inr sol \<and>
         py_float B v_imm = Inr imm \<and> py_float B v_aff = Inr aff)"
    by (simp add: coercions_succeed_def present)
  have long: "sequence_long_enough B r \<longleftrightarrow> 50 \<le> length (upper (py_str B v_seq))"
    by (simp add: sequence_long_enough_def present)
  show ?thesis
    unfolding accepted passes_checks_def coercions long make_candidate_Inr_iff [OF present]
    using True by auto
qed

lemma load_loop_Inl: "load_loop B raw acc = Inl e \<Longrightarrow> e = OverflowError"
  by (induction raw arbitrary: acc)
    (auto split: sum.splits option.splits dest: process_record_Inl)

lemma load_loop_Inr:
  assumes "load_loop B raw acc = Inr out"
  shows "\<exists>new. out = acc @ new \<and> length new \<le> length raw \<and>
           (length new = length raw \<longleftrightarrow> (\<forall>r \<in> set raw. passes_checks B r)) \<and>
           (\<forall>c \<in> set new. \<exists>r \<in> set raw. process_record B r = Inr (Some c))"
  using assms
proof (induction raw arbitrary: acc)
  case Nil
  then show ?case by simp
next
  case (Cons r rest)
  show ?case
  proof (cases "process_record B r")
    case (Inl e)
    with Cons.prems show ?thesis by simp
  next
    case (Inr res)
    show ?thesis
    proof (cases res)
      case None
      with Inr have rejected: "\<not> passes_checks B r"
        using process_record_Some_iff [of B r] by auto
      from Cons.prems Inr None have "load_loop B rest acc = Inr out"
        by simp
      from Cons.IH [OF this] obtain new where new: "out = acc @ new" "length new \<le> length rest"
        "\<forall>c \<in> set new. \<exists>r \<in> set rest. process_record B r = Inr (Some c)"
        by blast
      with rejected show ?thesis by auto
    next
      case (Some c)
      with Inr have accepted: "passes_checks B r"
        using process_record_Some_iff [of B r] by auto
      from Cons.prems Inr Some have "load_loop B rest (acc @ [c]) = Inr out"
        by simp
      from Cons.IH [OF this] obtain new where new: "out = (acc @ [c]) @ new"
        "length new \<le> length rest"
        "length new = length rest \<longleftrightarrow> (\<forall>r \<in> set rest. passes_checks B r)"
        "\<forall>c \<in> set new. \<exists>r \<in> set rest. process_record B r = Inr (Some c)"
        by blast
      from new accepted Inr Some show ?thesis
        by (intro exI [of _ "c # new"]) auto
    qed
  qed
qed

text \<open>What holds of the first part of claim C6 whenever the loader returns: the output is
  no longer than the input, and as long exactly when every record passes the three
  checks. An exception of the loader is an \<^verbatim>\<open>OverflowError\<close>; \<^verbatim>\<open>ValueError\<close>
  and \<^verbatim>\<open>TypeError\<close> never reach the caller.\<close>

lemma load_antibody_data_length:
  assumes "load_antibody_data B raw_data = Inr out"
  shows "length out \<le> length raw_data"
    and "length out = length raw_data \<longleftrightarrow> (\<forall>r \<in> set raw_data. passes_checks B r)"
  using load_loop_Inr [of B raw_data "[]" out] assms
  by (auto simp: load_antibody_data_def)

lemma load_antibody_data_Inl: "load_antibody_data B raw_data = Inl e \<Longrightarrow> e = OverflowError"
  by (auto simp: load_antibody_data_def dest: load_loop_Inl)

lemma py_float_overflow:
  "py_float B v = Inl OverflowError \<Longrightarrow> \<exists>n. v = PyInt n \<and> float_int_limit \<le> \<bar>n\<bar>"
  by (auto simp: py_float_def split: pyval.splits if_splits option.splits)

lemma process_record_overflow:
  assumes "process_record B r = Inl e"
  shows "\<exists>field n. r field = Some (PyInt n) \<and> float_int_limit \<le> \<bar>n\<bar>"
proof -
  from assms have e: "e = OverflowError" by (rule process_record_Inl)
  from assms obtain e' where body: "try_body B r = Inl e'"
    by (cases "try_body B r") (auto simp: process_record_def)
  with assms e have "try_body B r = Inl OverflowError"
    by (auto simp: process_record_def split: py_error.splits)
  then have "fields_present r" and m: "make_candidate B r = Inl OverflowError"
    by (auto simp: try_body_def fields_present_iff and_then_Inl_iff split: if_splits)
  then obtain v_id v_seq v_stab v_sol v_imm v_aff where present:
    "r ''id'' = Some v_id" "r ''sequence'' = Some v_seq"
    "r ''stability_score'' = Some v_stab" "r ''solubility_score'' = Some v_sol"
    "r ''immunogenicity_score'' = Some v_imm" "r ''binding_affinity'' = Some v_aff"
    by (auto elim: fields_presentE)
  from m have "py_float B v_stab = Inl OverflowError \<or> py_float B v_sol = Inl OverflowError \<or>
      py_float B v_imm = Inl OverflowError \<or> py_float B v_aff = Inl OverflowError"
    unfolding make_candidate_present [OF present] by (auto simp: and_then_Inl_iff)
  with present show ?thesis
    by (metis py_float_overflow)
qed

lemma load_loop_total:
  assumes "\<forall>r \<in> set raw. \<forall>field n. r field = Some (PyInt n) \<longrightarrow> \<bar>n\<bar> < float_int_limit"
  shows "\<exists>out. load_loop B raw acc = Inr out"
  using assms
proof (induction raw arbitrary: acc)
  case Nil
  then show ?case by simp
next
  case (Cons r rest)
  have "\<nexists>e. process_record B r = Inl e"
    using Cons.prems process_record_overflow [of B r] by fastforce
  then obtain res where "process_record B r = Inr res"
    by (cases "process_record B r") auto
  moreover have "\<exists>out. load_loop B rest acc' = Inr out" for acc'
    using Cons by simp
  ultimately show ?case by (cases res) simp_all
qed

lemma load_antibody_data_total:
  "\<forall>r \<in> set raw_data. \<forall>field n. r field = Some (PyInt n) \<longrightarrow> \<bar>n\<bar> < float_int_limit \<Longrightarrow>
     \<exists>out. load_antibody_data B raw_data = Inr out"
  unfolding load_antibody_data_def by (rule load_loop_total)

text \<open>
  Claim C5, as the code has it. The \<open>binding_affinity\<close> of a record produced by the
  loader is the float of the value that a raw record carries, whatever that number is.
  For such a record \<open>composite_score\<close> fails exactly when \<open>binding_affinity = -1\<close>, and
  then with \<^verbatim>\<open>ZeroDivisionError\<close>; for every other record the denominator
  \<open>binding_affinity + 1\<close> is not zero and the score is computed.
\<close>

lemma process_record_affinity:
  assumes "process_record B r = Inr (Some c)"
  shows "\<exists>v. r ''binding_affinity'' = Some v \<and> py_float B v = Inr (binding_affinity c)"
proof -
  from assms have body: "try_body B r = Inr (Some c)"
    by (cases "try_body B r") (auto simp: process_record_def split: py_error.splits)
  then have "fields_present r" and m: "make_candidate B r = Inr c"
    by (auto simp: try_body_def fields_present_iff and_then_Inr_iff split: if_splits)
  then obtain v_id v_seq v_stab v_sol v_imm v_aff where present:
    "r ''id'' = Some v_id" "r ''sequence'' = Some v_seq"
    "r ''stability_score'' = Some v_stab" "r ''solubility_score'' = Some v_sol"
    "r ''immunogenicity_score'' = Some v_imm" "r ''binding_affinity'' = Some v_aff"
    by (auto elim: fields_presentE)
  from m have "py_float B v_aff = Inr (binding_affinity c)"
    unfolding make_candidate_Inr_iff [OF present] by auto
  with present(6) show ?thesis by blast
qed

theorem loaded_composite_score:
  assumes "load_antibody_data B raw_data = Inr out" and "c \<in> set out"
  shows "(\<exists>r \<in> set raw_data. \<exists>v. r ''binding_affinity'' = Some v \<and>
            py_float B v = Inr (binding_affinity c)) \<and>
         (binding_affinity c \<noteq> -1 \<longrightarrow>
            binding_affinity c + 1 \<noteq> 0 \<and> (\<exists>v. composite_score c = Inr v)) \<and>
         (binding_affinity c = -1 \<longrightarrow> composite_score c = Inl ZeroDivisionError)"
proof -
  from load_loop_Inr [of B raw_data "[]" out] assms
  obtain r where "r \<in> set raw_data" "process_record B r = Inr (Some c)"
    by (auto simp: load_antibody_data_def)
  then have "\<exists>r \<in> set raw_data. \<exists>v. r ''binding_affinity'' = Some v \<and>
      py_float B v = Inr (binding_affinity c)"
    using process_record_affinity by blast
  then show ?thesis
    by (auto simp: composite_score_def)
qed

theorem loaded_composite_score_witness:
  "load_antibody_data example_builtins
     [raw_record_of (PyStr ''AB_0001'') (PyStr mock_sequence) (PyFloat 85) (PyFloat 70)
        (PyFloat 25) (PyFloat (1/2))] =
     Inr [mock_candidate ''0001'' 85 70 25 (1/2)] \<and>
   (\<exists>v. composite_score (mock_candidate ''0001'' 85 70 25 (1/2)) = Inr v)"
proof -
  have loaded: "load_antibody_data example_builtins
     [raw_record_of (PyStr ''AB_0001'') (PyStr mock_sequence) (PyFloat 85) (PyFloat 70)
        (PyFloat 25) (PyFloat (1/2))] =
     Inr [mock_candidate ''0001'' 85 70 25 (1/2)]"
    by (simp add: load_antibody_data_def process_record_floats upper_mock_sequence
        mock_candidate_def) (simp add: mock_sequence_def)
  have "binding_affinity (mock_candidate ''0001'' 85 70 25 (1/2)) \<noteq> -1"
    by (simp add: mock_candidate_def)
  with loaded_composite_score [OF loaded, of "mock_candidate ''0001'' 85 70 25 (1/2)"] loaded
  show ?thesis by simp
qed

text \<open>Where the claim as it is written fails: the loader accepts a record with
  \<open>binding_affinity = -1\<close>, and the composite score of the record it produces raises.\<close>

theorem loaded_composite_score_counterexample:
  "load_antibody_data example_builtins
     [raw_record_of (PyStr ''AB_0001'') (PyStr mock_sequence) (PyFloat 85) (PyFloat 70)
        (PyFloat 25) (PyFloat (-1))] =
     Inr [mock_candidate ''0001'' 85 70 25 (-1)] \<and>
   composite_score (mock_candidate ''0001'' 85 70 25 (-1)) = Inl ZeroDivisionError"
  by (simp add: load_antibody_data_def process_record_floats upper_mock_sequence
      mock_candidate_def composite_score_def) (simp add: mock_sequence_def)

text \<open>
  Claim C6. The claim says that no exception of a single record's processing reaches the
  caller. The \<^verbatim>\<open>except\<close> clause catches \<^verbatim>\<open>ValueError\<close> and \<^verbatim>\<open>TypeError\<close>; the
  \<^verbatim>\<open>OverflowError\<close> that \<^verbatim>\<open>float\<close> raises for an integer beyond the range of a
  double is not caught. One such record ends the whole call, whatever the other records
  are.
\<close>

theorem load_antibody_data_overflow:
  "load_antibody_data B
     [raw_record_of (PyStr ''AB_0001'') (PyStr mock_sequence) (PyInt (10 ^ 400)) (PyFloat 70)
        (PyFloat 25) (PyFloat (1/2))] = Inl OverflowError"
proof -
  have "float_int_limit \<le> \<bar>10 ^ 400\<bar>"
    by (simp add: float_int_limit_def)
  then show ?thesis
    by (simp add: load_antibody_data_def process_record_def try_body_def
        raw_record_of_complete make_candidate_def getitem_raw_record_of py_float_def)
qed

theorem load_antibody_data_overflow_witness:
  "load_antibody_data example_builtins
     [raw_record_of (PyStr ''AB_0001'') (PyStr mock_sequence) (PyInt (10 ^ 400)) (PyFloat 70)
        (PyFloat 25) (PyFloat (1/2))] = Inl OverflowError"
  by (rule load_antibody_data_overflow)

text \<open>
  Claim C9. A single raw record with an identifier, a sequence of 100 characters and the
  scores 85.0, 70.0, 25.0 and 0.5 is loaded into exactly one record, with the identifier
  as given and the sequence in upper case.
\<close>

theorem load_single_record:
  assumes "length sq = 100"
  shows "load_antibody_data B
           [raw_record_of (PyStr i) (PyStr sq) (PyFloat 85) (PyFloat 70) (PyFloat 25)
              (PyFloat (1/2))] =
         Inr [\<lparr>id' = i, sequence = upper sq, stability_score = 85, solubility_score = 70,
               immunogenicity_score = 25, binding_affinity = 1/2\<rparr>]"
  using assms by (simp add: load_antibody_data_def process_record_floats)

theorem load_single_record_witness:
  "length lower_sequence = 100 \<and>
   load_antibody_data example_builtins
     [raw_record_of (PyStr ''AB_0001'') (PyStr lower_sequence) (PyFloat 85) (PyFloat 70)
        (PyFloat 25) (PyFloat (1/2))] =
   Inr [\<lparr>id' = ''AB_0001'', sequence = mock_sequence @ ''GS'', stability_score = 85,
         solubility_score = 70, immunogenicity_score = 25, binding_affinity = 1/2\<rparr>]"
proof -
  have len: "length lower_sequence = 100"
    by (simp add: lower_sequence_def)
  from load_single_record [OF len, of example_builtins "''AB_0001''"] len
  show ?thesis by (simp add: upper_lower_sequence)
qed

end
